theory Spec2Isabelle
  imports Complex_Main
begin

section \<open>Python values, exceptions and builtins used by main.py\<close>

text \<open>
  The exporter is one Python module, \<^verbatim>\<open>main.py\<close>. Its two functions of interest are
  \<^verbatim>\<open>run_speedtest\<close> (runs the Speedtest CLI and interprets its JSON output) and
  \<^verbatim>\<open>record_speedtest\<close> (the Flask handler of \<^verbatim>\<open>/metrics\<close>, which refreshes six
  Prometheus gauges when the module-level deadline \<^verbatim>\<open>speedtest_cache_timeout\<close> has passed).

  Exceptions are values: a computation that can raise returns \<open>py_error + 'a\<close>.
\<close>

datatype py_error =
  KeyError | TypeError | ValueError | OverflowError | TimeoutExpired | OSError | RecursionError

text \<open>
  A Python float is a finite double (given by its exact real value), an infinity or NaN.
  \<^verbatim>\<open>json.loads\<close> yields the infinities for literals such as \<^verbatim>\<open>1e999\<close>.
\<close>

datatype pyfloat = Finite real | PosInf | NegInf | NaN

text \<open>
  What \<^verbatim>\<open>json.loads\<close> returns: \<^verbatim>\<open>None\<close>, \<^verbatim>\<open>bool\<close>, \<^verbatim>\<open>int\<close> (unbounded), \<^verbatim>\<open>float\<close>,
  \<^verbatim>\<open>str\<close> (as its UTF-8 bytes), \<^verbatim>\<open>list\<close> and \<^verbatim>\<open>dict\<close> (keys are strings; the first
  binding of a key in the association list is the dict's value for it).
\<close>

datatype json =
  JNull | JBool bool | JInt int | JFloat pyfloat | JStr string
  | JArr "json list" | JObj "(string \<times> json) list"

text \<open>
  Library functions whose code is not part of the module are parameters of the model:
  \<^verbatim>\<open>json.loads\<close> on the bytes of the tool's output (raising \<^verbatim>\<open>ValueError\<close>, of which
  \<^verbatim>\<open>JSONDecodeError\<close> and \<^verbatim>\<open>UnicodeDecodeError\<close> are subclasses, or another exception
  such as \<^verbatim>\<open>RecursionError\<close>), \<^verbatim>\<open>int(s)\<close> on a string (\<open>None\<close> is \<^verbatim>\<open>ValueError\<close>),
  whether \<^verbatim>\<open>float(s)\<close> accepts a string, and the double that \<^verbatim>\<open>t + n\<close> rounds to for a
  float \<open>t\<close> and an \<^verbatim>\<open>int\<close> \<open>n\<close> that converts to a float.
\<close>

record pylib =
  json_loads :: "string \<Rightarrow> py_error + json"
  int_str :: "string \<Rightarrow> int option"
  float_str :: "string \<Rightarrow> bool"
  float_add :: "real \<Rightarrow> int \<Rightarrow> real"

definition DBL_MAX :: real where
  "DBL_MAX = 2 ^ 1024 - 2 ^ 971"

text \<open>
  \<^verbatim>\<open>x * 8\<close> on a float: scaling a double by a power of two is exact unless the result
  exceeds the largest double, when it is an infinity.
\<close>

fun float_mul8 :: "pyfloat \<Rightarrow> pyfloat" where
  "float_mul8 (Finite x) =
     (if DBL_MAX < \<bar>x * 8\<bar> then (if 0 < x then PosInf else NegInf) else Finite (x * 8))"
| "float_mul8 PosInf = PosInf"
| "float_mul8 NegInf = NegInf"
| "float_mul8 NaN = NaN"

text \<open>Converting an \<^verbatim>\<open>int\<close> to a float raises \<^verbatim>\<open>OverflowError\<close> from \<open>2^1024 - 2^970\<close> on.\<close>

definition int_too_large :: "int \<Rightarrow> bool" where
  "int_too_large n = (2 ^ 1024 - 2 ^ 970 \<le> \<bar>n\<bar>)"

text \<open>
  \<^verbatim>\<open>t + n\<close> for a float \<open>t\<close> and an \<^verbatim>\<open>int\<close> \<open>n\<close>: the \<^verbatim>\<open>int\<close> is converted to a float first,
  which raises when it is too large; the sum is the rounded double. It is finite for every
  clock reading: only a reading of \<open>2^970\<close> or more could lift a sum to an infinity.
\<close>

definition float_plus_int :: "pylib \<Rightarrow> real \<Rightarrow> int \<Rightarrow> py_error + real" where
  "float_plus_int lib t n = (if int_too_large n then Inl OverflowError else Inr (float_add lib t n))"

text \<open>\<^verbatim>\<open>needle in s\<close> for two strings: \<open>needle\<close> occurs in \<open>s\<close> as a contiguous slice.\<close>

fun str_contains :: "string \<Rightarrow> string \<Rightarrow> bool" where
  "str_contains needle [] = (needle = [])"
| "str_contains needle (c # cs) =
     (take (length needle) (c # cs) = needle \<or> str_contains needle cs)"

text \<open>\<^verbatim>\<open>key in data\<close> with a string \<open>key\<close>; numbers, booleans and \<^verbatim>\<open>None\<close> are not iterable.\<close>

fun py_contains :: "string \<Rightarrow> json \<Rightarrow> py_error + bool" where
  "py_contains key (JObj kvs) = Inr (map_of kvs key \<noteq> None)"
| "py_contains key (JArr xs) = Inr (JStr key \<in> set xs)"
| "py_contains key (JStr s) = Inr (str_contains key s)"
| "py_contains key JNull = Inl TypeError"
| "py_contains key (JBool b) = Inl TypeError"
| "py_contains key (JInt n) = Inl TypeError"
| "py_contains key (JFloat x) = Inl TypeError"

text \<open>\<^verbatim>\<open>data[key]\<close> with a string \<open>key\<close>: only a dict can be indexed by a string.\<close>

fun py_getitem :: "json \<Rightarrow> string \<Rightarrow> py_error + json" where
  "py_getitem (JObj kvs) key = (case map_of kvs key of None \<Rightarrow> Inl KeyError | Some v \<Rightarrow> Inr v)"
| "py_getitem (JArr xs) key = Inl TypeError"
| "py_getitem (JStr s) key = Inl TypeError"
| "py_getitem JNull key = Inl TypeError"
| "py_getitem (JBool b) key = Inl TypeError"
| "py_getitem (JInt n) key = Inl TypeError"
| "py_getitem (JFloat x) key = Inl TypeError"

text \<open>\<^verbatim>\<open>data[k1][k2]\<close>\<close>

definition py_getitem2 :: "json \<Rightarrow> string \<Rightarrow> string \<Rightarrow> py_error + json" where
  "py_getitem2 data k1 k2 =
     (case py_getitem data k1 of Inl e \<Rightarrow> Inl e | Inr v \<Rightarrow> py_getitem v k2)"

text \<open>\<^verbatim>\<open>int(v)\<close>: floats are truncated towards zero.\<close>

fun py_int :: "pylib \<Rightarrow> json \<Rightarrow> py_error + int" where
  "py_int lib (JInt n) = Inr n"
| "py_int lib (JBool b) = Inr (if b then 1 else 0)"
| "py_int lib (JFloat (Finite x)) = Inr (if 0 \<le> x then \<lfloor>x\<rfloor> else \<lceil>x\<rceil>)"
| "py_int lib (JFloat PosInf) = Inl OverflowError"
| "py_int lib (JFloat NegInf) = Inl OverflowError"
| "py_int lib (JFloat NaN) = Inl ValueError"
| "py_int lib (JStr s) = (case int_str lib s of None \<Rightarrow> Inl ValueError | Some n \<Rightarrow> Inr n)"
| "py_int lib JNull = Inl TypeError"
| "py_int lib (JArr xs) = Inl TypeError"
| "py_int lib (JObj kvs) = Inl TypeError"

section \<open>Effects\<close>

text \<open>
  The observable effects of a call, in the order they happen: running the external
  command (\<^verbatim>\<open>subprocess.check_output(cmd, timeout=timeout)\<close>) and records written to the
  module's logger. A log message is kept as its parts: a literal, \<^verbatim>\<open>str(v)\<close> of a value,
  or the formatted result of \<^verbatim>\<open>bits_to_megabits(v)\<close>.
\<close>

datatype level = ERROR | INFO

datatype log_arg = Lit string | Str json | Mbit json

datatype effect = Invoke "string list" "int option" | Log level "log_arg list"

type_synonym 'a comp = "effect list \<times> (py_error + 'a)"

definition pure :: "'a \<Rightarrow> 'a comp" where
  "pure x = ([], Inr x)"

definition attempt :: "py_error + 'a \<Rightarrow> ('a \<Rightarrow> 'b comp) \<Rightarrow> 'b comp" where
  "attempt r f = (case r of Inl e \<Rightarrow> ([], Inl e) | Inr x \<Rightarrow> f x)"

definition emit :: "effect list \<Rightarrow> 'a comp \<Rightarrow> 'a comp" where
  "emit es m = (es @ fst m, snd m)"

text \<open>What \<^verbatim>\<open>subprocess.check_output\<close> does: return the output of a process that exited
  with status zero, raise \<^verbatim>\<open>CalledProcessError\<close> carrying the output of one that did not,
  or raise something else (\<^verbatim>\<open>TimeoutExpired\<close> after the timeout, \<^verbatim>\<open>OSError\<close> when the
  program cannot be started).\<close>

datatype proc_result = Output string | CalledProcessError string | Raises py_error

section \<open>run\_speedtest\<close>

type_synonym result = "json \<times> json \<times> json \<times> json \<times> json \<times> json"

definition zero_result :: result where
  "zero_result = (JInt 0, JInt 0, JInt 0, JInt 0, JInt 0, JInt 0)"

text \<open>\<^verbatim>\<open>bytes_per_sec * 8\<close>: a string or a list is repeated eight times.\<close>

fun bytes_to_bits :: "json \<Rightarrow> py_error + json" where
  "bytes_to_bits (JInt n) = Inr (JInt (n * 8))"
| "bytes_to_bits (JBool b) = Inr (JInt (if b then 8 else 0))"
| "bytes_to_bits (JFloat x) = Inr (JFloat (float_mul8 x))"
| "bytes_to_bits (JStr s) = Inr (JStr (concat (replicate 8 s)))"
| "bytes_to_bits (JArr xs) = Inr (JArr (concat (replicate 8 xs)))"
| "bytes_to_bits JNull = Inl TypeError"
| "bytes_to_bits (JObj kvs) = Inl TypeError"

text \<open>\<^verbatim>\<open>is_json\<close> catches \<^verbatim>\<open>ValueError\<close> only.\<close>

definition is_json :: "pylib \<Rightarrow> string \<Rightarrow> py_error + bool" where
  "is_json lib json_data =
     (case json_loads lib json_data of
        Inr v \<Rightarrow> Inr True
      | Inl e \<Rightarrow> if e = ValueError then Inr False else Inl e)"

definition command :: "string option \<Rightarrow> string list" where
  "command server_id =
     [''speedtest'', ''--format=json-pretty'', ''--progress=no'',
      ''--accept-license'', ''--accept-gdpr'']
     @ (case server_id of
          None \<Rightarrow> []
        | Some s \<Rightarrow> if s \<noteq> [] then [''--server-id='' @ s] else [])"

text \<open>Lines 97-98: the fall-through at the end of \<^verbatim>\<open>run_speedtest\<close>.\<close>

definition no_result :: "result comp" where
  "no_result =
     emit [Log ERROR [Lit ''Successfull speedtest had no json result.'']] (pure zero_result)"

text \<open>Lines 90-95: the body of the \<^verbatim>\<open>"result"\<close> branch, evaluated left to right.\<close>

definition extract_result :: "pylib \<Rightarrow> json \<Rightarrow> result comp" where
  "extract_result lib data =
     attempt (py_getitem2 data ''server'' ''id'') (\<lambda>server_id.
     attempt (py_int lib server_id) (\<lambda>actual_server.
     attempt (py_getitem2 data ''ping'' ''jitter'') (\<lambda>actual_jitter.
     attempt (py_getitem2 data ''ping'' ''latency'') (\<lambda>actual_ping.
     attempt (py_getitem2 data ''download'' ''bandwidth'') (\<lambda>download.
     attempt (bytes_to_bits download) (\<lambda>actual_download_speed.
     attempt (py_getitem2 data ''upload'' ''bandwidth'') (\<lambda>upload.
     attempt (bytes_to_bits upload) (\<lambda>actual_upload_speed.
     pure (JInt actual_server, actual_jitter, actual_ping,
           actual_download_speed, actual_upload_speed, JInt 1)))))))))"

text \<open>Lines 86-87: the \<^verbatim>\<open>"log"\<close> branch; it does not return.\<close>

definition log_event :: "json \<Rightarrow> unit comp" where
  "log_event data =
     attempt (py_getitem data ''timestamp'') (\<lambda>timestamp.
     attempt (py_getitem data ''message'') (\<lambda>message.
     emit [Log INFO [Str timestamp, Lit '' - '', Str message]] (pure ())))"

text \<open>Lines 85-98: \<^verbatim>\<open>"type" in data\<close> held.\<close>

definition typed_event :: "pylib \<Rightarrow> json \<Rightarrow> result comp" where
  "typed_event lib data =
     attempt (py_getitem data ''type'') (\<lambda>ty.
       if ty = JStr ''log'' then
         (case log_event data of
            (es, Inl e) \<Rightarrow> (es, Inl e)
          | (es, Inr u) \<Rightarrow> emit es no_result)
       else if ty = JStr ''result'' then extract_result lib data
       else no_result)"

text \<open>Lines 77-98: from \<^verbatim>\<open>if is_json(output)\<close> to the end.\<close>

definition interpret_output :: "pylib \<Rightarrow> string \<Rightarrow> result comp" where
  "interpret_output lib output =
     attempt (is_json lib output) (\<lambda>j.
       if j then
         attempt (json_loads lib output) (\<lambda>data.
         attempt (py_contains ''error'' data) (\<lambda>has_error.
           if has_error then
             emit [Log ERROR [Lit ''Socker error while speedtest.'']]
               (attempt (py_getitem data ''error'') (\<lambda>err.
                  emit [Log ERROR [Str err]] (pure zero_result)))
           else
             attempt (py_contains ''type'' data) (\<lambda>has_type.
               if has_type then typed_event lib data else no_result)))
       else no_result)"

definition run_speedtest ::
  "pylib \<Rightarrow> (string list \<Rightarrow> int option \<Rightarrow> proc_result) \<Rightarrow> string option \<Rightarrow> int option
     \<Rightarrow> result comp" where
  "run_speedtest lib check_output server_id timeout =
     (let cmd = command server_id in
      emit [Invoke cmd timeout]
        (case check_output cmd timeout of
           Raises e \<Rightarrow> ([], Inl e)
         | CalledProcessError output \<Rightarrow>
             attempt (is_json lib output) (\<lambda>j.
               if \<not> j then
                 emit [Log ERROR [Lit ''Speedtest CLI error not in JSON format.'']]
                   (pure zero_result)
               else interpret_output lib output)
         | Output output \<Rightarrow> interpret_output lib output))"

section \<open>record\_speedtest\<close>

text \<open>
  A Prometheus gauge stores \<^verbatim>\<open>float(value)\<close> of the value it is set to. The model keeps
  the value that was passed (\<open>AsFloat v\<close> stands for \<^verbatim>\<open>float(v)\<close>) and raises where
  \<^verbatim>\<open>float\<close> does. A new gauge holds \<^verbatim>\<open>0.0\<close>.
\<close>

datatype gauge = AsFloat json

fun gauge_set :: "pylib \<Rightarrow> json \<Rightarrow> py_error + gauge" where
  "gauge_set lib (JInt n) = (if int_too_large n then Inl OverflowError else Inr (AsFloat (JInt n)))"
| "gauge_set lib (JBool b) = Inr (AsFloat (JBool b))"
| "gauge_set lib (JFloat x) = Inr (AsFloat (JFloat x))"
| "gauge_set lib (JStr s) = (if float_str lib s then Inr (AsFloat (JStr s)) else Inl ValueError)"
| "gauge_set lib JNull = Inl TypeError"
| "gauge_set lib (JArr xs) = Inl TypeError"
| "gauge_set lib (JObj kvs) = Inl TypeError"

text \<open>The module's globals: the deadline and the six gauges.\<close>

record globals =
  speedtest_cache_timeout :: real
  server :: gauge
  jitter :: gauge
  ping :: gauge
  download_speed :: gauge
  upload_speed :: gauge
  status :: gauge

text \<open>The state after import: the deadline is the time of import.\<close>

definition initial :: "real \<Rightarrow> globals" where
  "initial t0 =
     \<lparr>speedtest_cache_timeout = t0,
      server = AsFloat (JFloat (Finite 0)), jitter = AsFloat (JFloat (Finite 0)),
      ping = AsFloat (JFloat (Finite 0)), download_speed = AsFloat (JFloat (Finite 0)),
      upload_speed = AsFloat (JFloat (Finite 0)), status = AsFloat (JFloat (Finite 0))\<rparr>"

text \<open>
  What one request reads from outside the module: the environment, the clock at line 109
  (the expiry check) and at line 120 (the new deadline), and what running a command does.
\<close>

record request =
  getenv :: "string \<Rightarrow> string option"
  time_check :: real
  time_store :: real
  check_output :: "string list \<Rightarrow> int option \<Rightarrow> proc_result"

text \<open>\<^verbatim>\<open>int(os.getenv(name, default))\<close>\<close>

definition getenv_int :: "pylib \<Rightarrow> (string \<Rightarrow> string option) \<Rightarrow> string \<Rightarrow> int \<Rightarrow> py_error + int" where
  "getenv_int lib env name dflt =
     (case env name of
        None \<Rightarrow> Inr dflt
      | Some s \<Rightarrow> (case int_str lib s of None \<Rightarrow> Inl ValueError | Some n \<Rightarrow> Inr n))"

text \<open>
  \<^verbatim>\<open>round(bits_per_sec * (10**-6), 2)\<close>: the product with a float raises for a sequence,
  \<^verbatim>\<open>None\<close> or a dict and for an int too large for a float. The rounded value is only
  logged; it is kept as \<open>Mbit v\<close>.
\<close>

fun bits_to_megabits :: "json \<Rightarrow> py_error + log_arg" where
  "bits_to_megabits (JInt n) = (if int_too_large n then Inl OverflowError else Inr (Mbit (JInt n)))"
| "bits_to_megabits (JBool b) = Inr (Mbit (JBool b))"
| "bits_to_megabits (JFloat x) = Inr (Mbit (JFloat x))"
| "bits_to_megabits (JStr s) = Inl TypeError"
| "bits_to_megabits (JArr xs) = Inl TypeError"
| "bits_to_megabits JNull = Inl TypeError"
| "bits_to_megabits (JObj kvs) = Inl TypeError"

text \<open>Lines 113-118: the gauges are set one after the other; the first \<^verbatim>\<open>set\<close> that
  raises leaves the earlier ones changed and the later ones as they were.\<close>

fun set_each ::
  "pylib \<Rightarrow> ((gauge \<Rightarrow> globals \<Rightarrow> globals) \<times> json) list \<Rightarrow> globals \<Rightarrow> py_error option \<times> globals" where
  "set_each lib [] g = (None, g)"
| "set_each lib ((upd, v) # rest) g =
     (case gauge_set lib v of
        Inl e \<Rightarrow> (Some e, g)
      | Inr x \<Rightarrow> set_each lib rest (upd x g))"

definition set_gauges :: "pylib \<Rightarrow> result \<Rightarrow> globals \<Rightarrow> py_error option \<times> globals" where
  "set_gauges lib r g =
     (case r of (r_server, r_jitter, r_ping, r_download, r_upload, r_status) \<Rightarrow>
        set_each lib
          [(\<lambda>x. server_update (\<lambda>_. x), r_server),
           (\<lambda>x. jitter_update (\<lambda>_. x), r_jitter),
           (\<lambda>x. ping_update (\<lambda>_. x), r_ping),
           (\<lambda>x. download_speed_update (\<lambda>_. x), r_download),
           (\<lambda>x. upload_speed_update (\<lambda>_. x), r_upload),
           (\<lambda>x. status_update (\<lambda>_. x), r_status)] g)"

text \<open>Line 111: the log line; its two \<^verbatim>\<open>bits_to_megabits\<close> calls can raise.\<close>

definition summary_line :: "result \<Rightarrow> py_error + effect" where
  "summary_line r =
     (case r of (r_server, r_jitter, r_ping, r_download, r_upload, r_status) \<Rightarrow>
        (case bits_to_megabits r_download of
           Inl e \<Rightarrow> Inl e
         | Inr dl \<Rightarrow>
             (case bits_to_megabits r_upload of
                Inl e \<Rightarrow> Inl e
              | Inr ul \<Rightarrow>
                  Inr (Log INFO
                    [Lit ''Server='', Str r_server, Lit '' Jitter='', Str r_jitter,
                     Lit ''ms Ping='', Str r_ping, Lit ''ms Download='', dl,
                     Lit '' Upload='', ul]))))"

text \<open>
  Lines 110-120: the body of the \<^verbatim>\<open>if\<close>. The sum of line 120 can raise, after the gauges
  have been set and before the deadline is stored.
\<close>

definition refresh ::
  "pylib \<Rightarrow> request \<Rightarrow> int \<Rightarrow> string option \<Rightarrow> int \<Rightarrow> globals
     \<Rightarrow> effect list \<times> (py_error + unit) \<times> globals" where
  "refresh lib w cache_timeout speedtest_server speedtest_run_timeout g =
     (case run_speedtest lib (check_output w) speedtest_server (Some speedtest_run_timeout) of
        (es, Inl e) \<Rightarrow> (es, Inl e, g)
      | (es, Inr r) \<Rightarrow>
          (case summary_line r of
             Inl e \<Rightarrow> (es, Inl e, g)
           | Inr line \<Rightarrow>
               (case set_gauges lib r g of
                  (Some e, g') \<Rightarrow> (es @ [line], Inl e, g')
                | (None, g') \<Rightarrow>
                    (case float_plus_int lib (time_store w) cache_timeout of
                       Inl e \<Rightarrow> (es @ [line], Inl e, g')
                     | Inr valid_until \<Rightarrow>
                         (es @ [line], Inr (), g'\<lparr>speedtest_cache_timeout := valid_until\<rparr>)))))"

text \<open>Lines 105-107.\<close>

definition read_config :: "pylib \<Rightarrow> request \<Rightarrow> py_error + int \<times> string option \<times> int" where
  "read_config lib w =
     (case getenv_int lib (getenv w) ''SPEEDTEST_CACHE_TIMEOUT'' 900 of
        Inl e \<Rightarrow> Inl e
      | Inr cache_timeout \<Rightarrow>
          (case getenv_int lib (getenv w) ''SPEEDTEST_RUN_TIMEOUT'' 90 of
             Inl e \<Rightarrow> Inl e
           | Inr speedtest_run_timeout \<Rightarrow>
               Inr (cache_timeout, getenv w ''SPEEDTEST_SERVER'', speedtest_run_timeout)))"

text \<open>What the handler returns is rendered from the registry: the six gauges.\<close>

type_synonym metrics = "gauge \<times> gauge \<times> gauge \<times> gauge \<times> gauge \<times> gauge"

definition make_wsgi_app :: "globals \<Rightarrow> metrics" where
  "make_wsgi_app g = (server g, jitter g, ping g, download_speed g, upload_speed g, status g)"

text \<open>
  The handler, given the outcome \<open>expired\<close> of the comparison at line 109. The comparison
  is the only place where the handler reads the deadline.
\<close>

definition handle ::
  "pylib \<Rightarrow> request \<Rightarrow> bool \<Rightarrow> globals \<Rightarrow> effect list \<times> (py_error + metrics) \<times> globals" where
  "handle lib w expired g =
     (case read_config lib w of
        Inl e \<Rightarrow> ([], Inl e, g)
      | Inr (cache_timeout, speedtest_server, speedtest_run_timeout) \<Rightarrow>
          if expired then
            (case refresh lib w cache_timeout speedtest_server speedtest_run_timeout g of
               (es, Inl e, g') \<Rightarrow> (es, Inl e, g')
             | (es, Inr u, g') \<Rightarrow> (es, Inr (make_wsgi_app g'), g'))
          else ([], Inr (make_wsgi_app g), g))"

definition record_speedtest ::
  "pylib \<Rightarrow> request \<Rightarrow> globals \<Rightarrow> effect list \<times> (py_error + metrics) \<times> globals" where
  "record_speedtest lib w g = handle lib w (time_check w > speedtest_cache_timeout g) g"

text \<open>The probe invocations among the effects of a call.\<close>

fun is_invoke :: "effect \<Rightarrow> bool" where
  "is_invoke (Invoke cmd timeout) = True"
| "is_invoke (Log l args) = False"

definition invocations :: "effect list \<Rightarrow> nat" where
  "invocations es = length (filter is_invoke es)"

text \<open>Requests served one after the other.\<close>

fun serve :: "pylib \<Rightarrow> request list \<Rightarrow> globals \<Rightarrow> effect list \<times> globals" where
  "serve lib [] g = ([], g)"
| "serve lib (w # ws) g =
     (case record_speedtest lib w g of
        (es, r, g') \<Rightarrow> (case serve lib ws g' of (es', g'') \<Rightarrow> (es @ es', g'')))"

text \<open>
  Requests served by the threads of the server while none of them has stored a deadline
  yet: every thread compares with the deadline of the state \<open>g0\<close> in which all of them
  started, and the bodies run in the order of the list.
\<close>

fun serve_overlapped :: "pylib \<Rightarrow> request list \<Rightarrow> globals \<Rightarrow> globals \<Rightarrow> effect list \<times> globals" where
  "serve_overlapped lib [] g0 g = ([], g)"
| "serve_overlapped lib (w # ws) g0 g =
     (case handle lib w (time_check w > speedtest_cache_timeout g0) g of
        (es, r, g') \<Rightarrow> (case serve_overlapped lib ws g0 g' of (es', g'') \<Rightarrow> (es @ es', g'')))"

section \<open>The conversion as the specification words it\<close>

text \<open>
  The specification asks for \<open>download_bps = 8 * download.bandwidth\<close>, exact and without
  rounding, for the bandwidth numbers of a result event. \<open>valid_bandwidth\<close> are the numbers
  for which that product exists as a Python number: every \<^verbatim>\<open>int\<close>, and every finite float
  whose eightfold is still a finite float.
\<close>

fun valid_bandwidth :: "json \<Rightarrow> bool" where
  "valid_bandwidth (JInt n) = True"
| "valid_bandwidth (JFloat (Finite x)) = (\<bar>x * 8\<bar> \<le> DBL_MAX)"
| "valid_bandwidth v = False"

fun eight_times :: "json \<Rightarrow> json" where
  "eight_times (JInt n) = JInt (8 * n)"
| "eight_times (JFloat (Finite x)) = JFloat (Finite (8 * x))"
| "eight_times v = v"

section \<open>Which outcomes run\_speedtest handles\<close>

fun ok :: "py_error + 'a \<Rightarrow> bool" where
  "ok (Inr x) = True"
| "ok (Inl e) = False"

text \<open>
  A result event is incomplete when one of the five fields cannot be read (a key is
  missing, or what should be a dict is not one) or when \<open>server.id\<close> does not convert to
  an integer.
\<close>

definition incomplete_result :: "pylib \<Rightarrow> json \<Rightarrow> bool" where
  "incomplete_result lib data =
     ((case py_getitem2 data ''server'' ''id'' of Inl e \<Rightarrow> True | Inr v \<Rightarrow> \<not> ok (py_int lib v))
      \<or> \<not> ok (py_getitem2 data ''ping'' ''jitter'')
      \<or> \<not> ok (py_getitem2 data ''ping'' ''latency'')
      \<or> \<not> ok (py_getitem2 data ''download'' ''bandwidth'')
      \<or> \<not> ok (py_getitem2 data ''upload'' ''bandwidth''))"

text \<open>The bandwidth under \<open>k\<close> is present and can be multiplied by 8.\<close>

definition convertible :: "json \<Rightarrow> string \<Rightarrow> bool" where
  "convertible data k =
     (case py_getitem2 data k ''bandwidth'' of Inl e \<Rightarrow> False | Inr v \<Rightarrow> ok (bytes_to_bits v))"

definition result_fields_ok :: "pylib \<Rightarrow> json \<Rightarrow> bool" where
  "result_fields_ok lib data =
     (\<not> incomplete_result lib data \<and> convertible data ''download'' \<and> convertible data ''upload'')"

text \<open>
  The parsed outputs for which the function returns: a dict with an \<open>error\<close> key; a dict
  without \<open>type\<close> key or with another type than \<open>log\<close> and \<open>result\<close>; a log event with
  \<open>timestamp\<close> and \<open>message\<close>; a result event whose fields can be read and converted; a
  list or a string in which neither \<open>error\<close> nor \<open>type\<close> occurs.
\<close>

fun data_handled :: "pylib \<Rightarrow> json \<Rightarrow> bool" where
  "data_handled lib (JObj kvs) =
     (if map_of kvs ''error'' \<noteq> None then True
      else case map_of kvs ''type'' of
             None \<Rightarrow> True
           | Some ty \<Rightarrow>
               if ty = JStr ''log''
               then map_of kvs ''timestamp'' \<noteq> None \<and> map_of kvs ''message'' \<noteq> None
               else if ty = JStr ''result'' then result_fields_ok lib (JObj kvs)
               else True)"
| "data_handled lib (JArr xs) = (JStr ''error'' \<notin> set xs \<and> JStr ''type'' \<notin> set xs)"
| "data_handled lib (JStr s) = (\<not> str_contains ''error'' s \<and> \<not> str_contains ''type'' s)"
| "data_handled lib v = False"

definition output_handled :: "pylib \<Rightarrow> string \<Rightarrow> bool" where
  "output_handled lib out =
     (case json_loads lib out of Inl e \<Rightarrow> e = ValueError | Inr data \<Rightarrow> data_handled lib data)"

text \<open>The process has to end by itself, with any exit status.\<close>

fun handled :: "pylib \<Rightarrow> proc_result \<Rightarrow> bool" where
  "handled lib (Output out) = output_handled lib out"
| "handled lib (CalledProcessError out) = output_handled lib out"
| "handled lib (Raises e) = False"

definition r_status :: "result \<Rightarrow> json" where
  "r_status r = (case r of (r_server, r_jitter, r_ping, r_download, r_upload, st) \<Rightarrow> st)"

text \<open>A well-formed result is the all-zero tuple of a failure or has status 1.\<close>

definition well_formed :: "result \<Rightarrow> bool" where
  "well_formed r = (r = zero_result \<or> r_status r = JInt 1)"

section \<open>What a refresh needs to complete\<close>

text \<open>
  A tuple can be published when the log line can be formatted and every gauge accepts its
  value.
\<close>

definition publishable :: "pylib \<Rightarrow> result \<Rightarrow> bool" where
  "publishable lib r =
     (case r of (r_server, r_jitter, r_ping, r_download, r_upload, st) \<Rightarrow>
        ok (bits_to_megabits r_download) \<and> ok (bits_to_megabits r_upload)
        \<and> list_all (\<lambda>v. ok (gauge_set lib v))
             [r_server, r_jitter, r_ping, r_download, r_upload, st])"

definition published :: "result \<Rightarrow> metrics" where
  "published r =
     (case r of (r_server, r_jitter, r_ping, r_download, r_upload, st) \<Rightarrow>
        (AsFloat r_server, AsFloat r_jitter, AsFloat r_ping,
         AsFloat r_download, AsFloat r_upload, AsFloat st))"

text \<open>The single cache entry: the globals that hold the tuple \<open>r\<close> until \<open>valid_until\<close>.\<close>

definition cache_entry :: "real \<Rightarrow> result \<Rightarrow> globals" where
  "cache_entry valid_until r =
     (case r of (r_server, r_jitter, r_ping, r_download, r_upload, st) \<Rightarrow>
        \<lparr>speedtest_cache_timeout = valid_until,
         server = AsFloat r_server, jitter = AsFloat r_jitter, ping = AsFloat r_ping,
         download_speed = AsFloat r_download, upload_speed = AsFloat r_upload,
         status = AsFloat st\<rparr>)"

text \<open>The cache timeout a request is served with, when its configuration can be read.\<close>

definition config_ttl :: "pylib \<Rightarrow> request \<Rightarrow> int option" where
  "config_ttl lib w =
     (case read_config lib w of
        Inl e \<Rightarrow> None
      | Inr (cache_timeout, speedtest_server, speedtest_run_timeout) \<Rightarrow> Some cache_timeout)"

text \<open>
  The deadline line 120 computes from the reading of a request is earlier than that
  reading for a negative timeout, and not later for a timeout of zero: rounding has not
  lifted the sum to the reading or above it.
\<close>

definition deadline_not_lifted :: "pylib \<Rightarrow> int \<Rightarrow> request \<Rightarrow> bool" where
  "deadline_not_lifted lib ttl w =
     (if ttl = 0 then float_add lib (time_store w) ttl \<le> time_store w
      else float_add lib (time_store w) ttl < time_store w)"


section \<open>Example inputs\<close>

text \<open>
  A library whose \<^verbatim>\<open>json.loads\<close> knows the listed outputs, raises the listed exceptions
  and rejects every other output with \<^verbatim>\<open>ValueError\<close>, whose \<^verbatim>\<open>int\<close> knows the listed
  numerals, in which no string is a float, and whose sums are exact, as the sums of the
  small integers of the examples are.
\<close>

definition lib_of ::
  "(string \<times> json) list \<Rightarrow> (string \<times> py_error) list \<Rightarrow> (string \<times> int) list \<Rightarrow> pylib" where
  "lib_of table raising ints =
     \<lparr>json_loads =
        (\<lambda>s. case map_of raising s of
               Some e \<Rightarrow> Inl e
             | None \<Rightarrow> (case map_of table s of None \<Rightarrow> Inl ValueError | Some d \<Rightarrow> Inr d)),
      int_str = map_of ints, float_str = (\<lambda>s. False),
      float_add = (\<lambda>t n. t + real_of_int n)\<rparr>"

text \<open>The result event of the specification's scenario A.\<close>

definition result_event :: json where
  "result_event =
     JObj [(''type'', JStr ''result''),
           (''server'', JObj [(''id'', JInt 1234)]),
           (''ping'', JObj [(''jitter'', JFloat (Finite (3 / 2))),
                            (''latency'', JFloat (Finite (51 / 5)))]),
           (''download'', JObj [(''bandwidth'', JInt 12500000)]),
           (''upload'', JObj [(''bandwidth'', JInt 1250000)])]"

definition log_event_only :: json where
  "log_event_only =
     JObj [(''type'', JStr ''log''), (''timestamp'', JStr ''2024-05-01T10:00:00Z''),
           (''message'', JStr ''No servers defined''), (''level'', JStr ''error'')]"

definition error_payload :: json where
  "error_payload = JObj [(''error'', JStr ''Cannot open socket'')]"

text \<open>A result event that lacks its \<open>upload\<close> part.\<close>

definition partial_result :: json where
  "partial_result =
     JObj [(''type'', JStr ''result''),
           (''server'', JObj [(''id'', JInt 1234)]),
           (''ping'', JObj [(''jitter'', JFloat (Finite (3 / 2))),
                            (''latency'', JFloat (Finite (51 / 5)))]),
           (''download'', JObj [(''bandwidth'', JInt 12500000)])]"

text \<open>A log event without its \<open>message\<close>.\<close>

definition log_without_message :: json where
  "log_without_message =
     JObj [(''type'', JStr ''log''), (''timestamp'', JStr ''2024-05-01T10:00:00Z'')]"

text \<open>The decimal digits of \<open>2 ^ 1024\<close>, an \<^verbatim>\<open>int\<close> too large for a float.\<close>

definition two_to_1024 :: string where
  "two_to_1024 =
     ''179769313486231590772930519078902473361797697894230657273430081157732675805500963132708477322407536021120113879871393357658789768814416622492847430639474124377767893424865485276302219601246094119453082952085005768838150682342462881473913110540827237163350510684586298239947245938479716304835356329624224137216''"

text \<open>
  The sample library. The output \<open>brackets.txt\<close> stands for 200000 opening brackets, which
  are not JSON and on which \<^verbatim>\<open>json.loads\<close> raises \<^verbatim>\<open>RecursionError\<close>.
\<close>

definition sample_lib :: pylib where
  "sample_lib =
     lib_of [(''result.json'', result_event), (''log.json'', log_event_only),
             (''error.json'', error_payload), (''partial.json'', partial_result),
             (''log_without_message.json'', log_without_message)]
            [(''brackets.txt'', RecursionError)]
            [(''0'', 0), (''900'', 900), (''-60'', - 60), (two_to_1024, 2 ^ 1024)]"

text \<open>The tool exits with status zero, exits with another status, or never exits.\<close>

definition prints :: "string \<Rightarrow> string list \<Rightarrow> int option \<Rightarrow> proc_result" where
  "prints out cmd timeout = Output out"

definition fails_with :: "string \<Rightarrow> string list \<Rightarrow> int option \<Rightarrow> proc_result" where
  "fails_with out cmd timeout = CalledProcessError out"

definition hangs :: "string list \<Rightarrow> int option \<Rightarrow> proc_result" where
  "hangs cmd timeout = Raises TimeoutExpired"

text \<open>Environments: nothing set, or only the cache timeout.\<close>

definition no_env :: "string \<Rightarrow> string option" where
  "no_env name = None"

definition ttl_env :: "string \<Rightarrow> string \<Rightarrow> string option" where
  "ttl_env v name = (if name = ''SPEEDTEST_CACHE_TIMEOUT'' then Some v else None)"

definition req ::
  "(string \<Rightarrow> string option) \<Rightarrow> real \<Rightarrow> real \<Rightarrow> (string list \<Rightarrow> int option \<Rightarrow> proc_result)
     \<Rightarrow> request" where
  "req env t1 t2 tool = \<lparr>getenv = env, time_check = t1, time_store = t2, check_output = tool\<rparr>"

text \<open>The tuple of scenario A, and the state a probe that returned it left with deadline 900.\<close>

definition scenario_A :: result where
  "scenario_A =
     (JInt 1234, JFloat (Finite (3 / 2)), JFloat (Finite (51 / 5)),
      JInt 100000000, JInt 10000000, JInt 1)"

definition good_state :: globals where
  "good_state = cache_entry 900 scenario_A"

section \<open>Properties of run\_speedtest\<close>

lemmas run_defs = run_speedtest_def interpret_output_def typed_event_def log_event_def
  extract_result_def no_result_def attempt_def emit_def pure_def is_json_def

lemmas sample_defs = sample_lib_def lib_of_def result_event_def log_event_only_def
  error_payload_def partial_result_def log_without_message_def two_to_1024_def prints_def fails_with_def hangs_def py_getitem2_def
  command_def no_env_def ttl_env_def req_def good_state_def scenario_A_def

lemma bytes_to_bits_valid:
  "valid_bandwidth v \<Longrightarrow> bytes_to_bits v = Inr (eight_times v)"
  by (induction v rule: valid_bandwidth.induct) (auto simp: mult.commute)

lemma ok_iff: "ok r \<longleftrightarrow> (\<exists>x. r = Inr x)"
  by (cases r) auto

lemma py_getitem_errors: "py_getitem d k = Inl e \<Longrightarrow> e \<in> {KeyError, TypeError}"
  by (cases d) (auto split: option.splits)

lemma py_getitem2_errors: "py_getitem2 d k1 k2 = Inl e \<Longrightarrow> e \<in> {KeyError, TypeError}"
  unfolding py_getitem2_def using py_getitem_errors
  by (fastforce split: sum.splits)

lemma py_int_errors: "py_int lib v = Inl e \<Longrightarrow> e \<in> {TypeError, ValueError, OverflowError}"
  by (induction lib v rule: py_int.induct) (auto split: option.splits)

lemma bytes_to_bits_errors: "bytes_to_bits v = Inl e \<Longrightarrow> e = TypeError"
  by (cases v) auto

lemma attempt_simps:
  "attempt (Inl e) f = ([], Inl e)" "attempt (Inr x) f = f x"
  by (simp_all add: attempt_def)

lemma snd_emit: "snd (emit es m) = snd m"
  by (simp add: emit_def)

lemma snd_no_result: "snd no_result = Inr zero_result"
  by (simp add: no_result_def emit_def pure_def)

lemma well_formed_zero: "well_formed zero_result"
  by (simp add: well_formed_def)

lemma extract_result_ok: "ok (snd (extract_result lib data)) \<longleftrightarrow> result_fields_ok lib data"
  by (auto simp: extract_result_def attempt_def pure_def result_fields_ok_def incomplete_result_def
      convertible_def ok_iff split: sum.splits)

lemma extract_result_status:
  "snd (extract_result lib data) = Inr r \<Longrightarrow> r_status r = JInt 1"
  by (auto simp: extract_result_def attempt_def pure_def r_status_def split: sum.splits)

lemma extract_result_errors:
  "snd (extract_result lib data) = Inl e \<Longrightarrow> e \<in> {KeyError, TypeError, ValueError, OverflowError}"
  using py_getitem2_errors py_int_errors bytes_to_bits_errors
  by (fastforce simp: extract_result_def attempt_def pure_def split: sum.splits)

lemma py_int_overflow:
  "py_int lib v = Inl OverflowError \<Longrightarrow> v = JFloat PosInf \<or> v = JFloat NegInf"
  by (induction lib v rule: py_int.induct) (auto split: option.splits)

lemma extract_result_overflow:
  assumes "snd (extract_result lib data) = Inl OverflowError"
  shows "py_getitem2 data ''server'' ''id'' = Inr (JFloat PosInf)
       \<or> py_getitem2 data ''server'' ''id'' = Inr (JFloat NegInf)"
  using assms py_getitem2_errors[of data] py_int_overflow[of lib] bytes_to_bits_errors
  by (fastforce simp: extract_result_def attempt_def pure_def split: sum.splits)

lemma snd_log_event:
  "snd (log_event data) =
     (case py_getitem data ''timestamp'' of
        Inl e \<Rightarrow> Inl e
      | Inr ts \<Rightarrow> (case py_getitem data ''message'' of Inl e \<Rightarrow> Inl e | Inr m \<Rightarrow> Inr ()))"
  by (simp add: log_event_def attempt_def emit_def pure_def split: sum.splits)

lemma snd_typed_event:
  "snd (typed_event lib data) =
     (case py_getitem data ''type'' of
        Inl e \<Rightarrow> Inl e
      | Inr ty \<Rightarrow>
          if ty = JStr ''log'' then
            (case snd (log_event data) of Inl e \<Rightarrow> Inl e | Inr u \<Rightarrow> Inr zero_result)
          else if ty = JStr ''result'' then snd (extract_result lib data)
          else Inr zero_result)"
  by (auto simp: typed_event_def attempt_simps snd_emit snd_no_result split: prod.splits sum.splits)

lemma snd_interpret_output:
  "snd (interpret_output lib out) =
     (case json_loads lib out of
        Inl e \<Rightarrow> if e = ValueError then Inr zero_result else Inl e
      | Inr data \<Rightarrow>
          (case py_contains ''error'' data of
             Inl e \<Rightarrow> Inl e
           | Inr has_error \<Rightarrow>
               if has_error then
                 (case py_getitem data ''error'' of Inl e \<Rightarrow> Inl e | Inr v \<Rightarrow> Inr zero_result)
               else
                 (case py_contains ''type'' data of
                    Inl e \<Rightarrow> Inl e
                  | Inr has_type \<Rightarrow>
                      if has_type then snd (typed_event lib data) else Inr zero_result)))"
  by (auto simp: interpret_output_def is_json_def attempt_simps snd_emit snd_no_result pure_def
      split: sum.splits)

lemma snd_run_speedtest:
  "snd (run_speedtest lib co sid t) =
     (case co (command sid) t of
        Raises e \<Rightarrow> Inl e
      | CalledProcessError out \<Rightarrow> snd (interpret_output lib out)
      | Output out \<Rightarrow> snd (interpret_output lib out))"
  by (auto simp: run_speedtest_def Let_def snd_emit snd_interpret_output is_json_def attempt_simps pure_def
      split: proc_result.splits sum.splits)

lemma interpret_ok: "ok (snd (interpret_output lib out)) \<longleftrightarrow> output_handled lib out"
proof (cases "json_loads lib out")
  case (Inl e)
  then show ?thesis by (simp add: snd_interpret_output output_handled_def)
next
  case (Inr data)
  then show ?thesis
    by (cases data)
      (auto simp: snd_interpret_output output_handled_def snd_typed_event snd_log_event
        extract_result_ok split: option.splits)
qed

lemma interpret_well_formed:
  assumes "snd (interpret_output lib out) = Inr r"
  shows "well_formed r"
proof (cases "json_loads lib out")
  case (Inl e)
  then show ?thesis using assms
    by (auto simp: snd_interpret_output well_formed_zero split: if_splits)
next
  case (Inr data)
  then show ?thesis using assms
    by (cases data)
      (auto simp: snd_interpret_output well_formed_zero snd_typed_event snd_log_event
        well_formed_def
        dest: extract_result_status split: if_splits option.splits)
qed

text \<open>
  C3. For a result event (a dict without \<open>error\<close> key whose \<open>type\<close> is \<open>result\<close>, whose
  \<open>server.id\<close> converts to an integer and whose five fields are present, the bandwidths
  being numbers), whatever the exit status of the tool, the returned tuple carries the
  converted server id, jitter and latency exactly as reported, eight times each reported
  bandwidth, and status 1.
\<close>

theorem run_speedtest_result_event:
  assumes "co (command sid) t = Output out \<or> co (command sid) t = CalledProcessError out"
    and "json_loads lib out = Inr (JObj kvs)"
    and "map_of kvs ''error'' = None"
    and "map_of kvs ''type'' = Some (JStr ''result'')"
    and "py_getitem2 (JObj kvs) ''server'' ''id'' = Inr server_id"
    and "py_int lib server_id = Inr n"
    and "py_getitem2 (JObj kvs) ''ping'' ''jitter'' = Inr j"
    and "py_getitem2 (JObj kvs) ''ping'' ''latency'' = Inr l"
    and "py_getitem2 (JObj kvs) ''download'' ''bandwidth'' = Inr down"
    and "py_getitem2 (JObj kvs) ''upload'' ''bandwidth'' = Inr up"
    and "valid_bandwidth down" and "valid_bandwidth up"
  shows "snd (run_speedtest lib co sid t)
           = Inr (JInt n, j, l, eight_times down, eight_times up, JInt 1)"
proof -
  have "bytes_to_bits down = Inr (eight_times down)" "bytes_to_bits up = Inr (eight_times up)"
    using assms(11,12) by (simp_all add: bytes_to_bits_valid)
  then show ?thesis
    using assms(1-10) by (auto simp: run_defs Let_def)
qed

theorem run_speedtest_result_event_witness:
  "prints ''result.json'' (command None) (Some 90) = Output ''result.json''
   \<and> json_loads sample_lib ''result.json'' = Inr result_event
   \<and> snd (run_speedtest sample_lib (prints ''result.json'') None (Some 90))
       = Inr (JInt 1234, JFloat (Finite (3 / 2)), JFloat (Finite (51 / 5)),
              JInt 100000000, JInt 10000000, JInt 1)"
  using run_speedtest_result_event
    [of "prints ''result.json''" None "Some 90" "''result.json''" sample_lib
        "[(''type'', JStr ''result''),
          (''server'', JObj [(''id'', JInt 1234)]),
          (''ping'', JObj [(''jitter'', JFloat (Finite (3 / 2))),
                           (''latency'', JFloat (Finite (51 / 5)))]),
          (''download'', JObj [(''bandwidth'', JInt 12500000)]),
          (''upload'', JObj [(''bandwidth'', JInt 1250000)])]"
        "JInt 1234" 1234 "JFloat (Finite (3 / 2))" "JFloat (Finite (51 / 5))"
        "JInt 12500000" "JInt 1250000"]
  by (simp add: sample_defs)

text \<open>
  C4, as the code has it. When \<^verbatim>\<open>json.loads\<close> raises \<^verbatim>\<open>ValueError\<close> on the output of the tool
  (the one exception \<^verbatim>\<open>is_json\<close> catches), or the output is a JSON object with an \<open>error\<close>
  key, the call returns the all-zero tuple, whatever the exit status of the tool.
\<close>

theorem run_speedtest_not_json_or_error:
  assumes "co (command sid) t = Output out \<or> co (command sid) t = CalledProcessError out"
    and "json_loads lib out = Inl ValueError
       \<or> (\<exists>kvs v. json_loads lib out = Inr (JObj kvs) \<and> map_of kvs ''error'' = Some v)"
  shows "snd (run_speedtest lib co sid t) = Inr zero_result"
  using assms by (auto simp: run_defs Let_def)

theorem run_speedtest_not_json_or_error_witness:
  "fails_with ''Segmentation fault'' (command (Some ''1234'')) (Some 90)
     = CalledProcessError ''Segmentation fault''
   \<and> json_loads sample_lib ''Segmentation fault'' = Inl ValueError
   \<and> snd (run_speedtest sample_lib (fails_with ''Segmentation fault'') (Some ''1234'') (Some 90))
       = Inr zero_result
   \<and> prints ''error.json'' (command None) (Some 90) = Output ''error.json''
   \<and> json_loads sample_lib ''error.json'' = Inr error_payload
   \<and> snd (run_speedtest sample_lib (prints ''error.json'') None (Some 90)) = Inr zero_result"
  using run_speedtest_not_json_or_error
    [of "fails_with ''Segmentation fault''" "Some ''1234''" "Some 90" "''Segmentation fault''"
        sample_lib]
    run_speedtest_not_json_or_error
    [of "prints ''error.json''" None "Some 90" "''error.json''" sample_lib]
  by (simp add: sample_defs)

text \<open>
  C4 as stated fails: on an output that is not JSON \<^verbatim>\<open>json.loads\<close> can raise another
  exception than \<^verbatim>\<open>ValueError\<close>, as \<^verbatim>\<open>RecursionError\<close> on 200000 opening brackets, and
  \<^verbatim>\<open>is_json\<close> lets it through.
\<close>

theorem run_speedtest_recursion_counterexample:
  "json_loads sample_lib ''brackets.txt'' = Inl RecursionError
   \<and> snd (run_speedtest sample_lib (prints ''brackets.txt'') None (Some 90)) = Inl RecursionError
   \<and> snd (run_speedtest sample_lib (fails_with ''brackets.txt'') None (Some 90))
       = Inl RecursionError"
  by (simp add: sample_defs snd_run_speedtest snd_interpret_output)

text \<open>
  C5, as the code has it. When the output of the tool is a single log event that carries
  its \<open>timestamp\<close> and \<open>message\<close> (a dict without \<open>error\<close> key whose \<open>type\<close> is \<open>log\<close>), the
  call runs the command once, logs the event at level INFO, then logs that there was no
  result and returns the all-zero tuple.
\<close>

theorem run_speedtest_log_event:
  assumes "co (command sid) t = Output out \<or> co (command sid) t = CalledProcessError out"
    and "json_loads lib out = Inr (JObj kvs)"
    and "map_of kvs ''error'' = None"
    and "map_of kvs ''type'' = Some (JStr ''log'')"
    and "map_of kvs ''timestamp'' = Some ts"
    and "map_of kvs ''message'' = Some msg"
  shows "run_speedtest lib co sid t =
     ([Invoke (command sid) t,
       Log INFO [Str ts, Lit '' - '', Str msg],
       Log ERROR [Lit ''Successfull speedtest had no json result.'']],
      Inr zero_result)"
  using assms by (auto simp: run_defs Let_def)

theorem run_speedtest_log_event_witness:
  "prints ''log.json'' (command None) (Some 90) = Output ''log.json''
   \<and> json_loads sample_lib ''log.json'' = Inr log_event_only
   \<and> run_speedtest sample_lib (prints ''log.json'') None (Some 90) =
     ([Invoke (command None) (Some 90),
       Log INFO [Str (JStr ''2024-05-01T10:00:00Z''), Lit '' - '', Str (JStr ''No servers defined'')],
       Log ERROR [Lit ''Successfull speedtest had no json result.'']],
      Inr zero_result)"
  using run_speedtest_log_event
    [of "prints ''log.json''" None "Some 90" "''log.json''" sample_lib
        "[(''type'', JStr ''log''), (''timestamp'', JStr ''2024-05-01T10:00:00Z''),
          (''message'', JStr ''No servers defined''), (''level'', JStr ''error'')]"
        "JStr ''2024-05-01T10:00:00Z''" "JStr ''No servers defined''"]
  by (simp add: sample_defs)

text \<open>
  C5 as stated fails: a log event without \<open>message\<close> raises \<^verbatim>\<open>KeyError\<close> at line 87, before
  anything is logged.
\<close>

theorem run_speedtest_log_without_message_counterexample:
  "json_loads sample_lib ''log_without_message.json'' = Inr log_without_message
   \<and> py_getitem log_without_message ''type'' = Inr (JStr ''log'')
   \<and> run_speedtest sample_lib (prints ''log_without_message.json'') None (Some 90)
       = ([Invoke (command None) (Some 90)], Inl KeyError)"
  by (simp add: sample_defs run_defs)

text \<open>
  C1, as the code has it. \<^verbatim>\<open>run_speedtest\<close> returns a tuple exactly for the handled outcomes:
  the process ended by itself (with any exit status) and its output is not JSON, or is JSON
  of one of the shapes of \<open>data_handled\<close>. Every tuple it returns is well formed: the
  all-zero tuple of a failure, or a tuple with status 1. For every other outcome it raises:
  the only \<^verbatim>\<open>except\<close> clause of the function is for \<^verbatim>\<open>CalledProcessError\<close>.
\<close>

theorem run_speedtest_returns_iff_handled:
  "(ok (snd (run_speedtest lib co sid t)) \<longleftrightarrow> handled lib (co (command sid) t))
   \<and> (\<forall>r. snd (run_speedtest lib co sid t) = Inr r \<longrightarrow> well_formed r)"
proof (cases "co (command sid) t")
  case (Output out)
  then have "snd (run_speedtest lib co sid t) = snd (interpret_output lib out)"
    by (simp add: snd_run_speedtest)
  then show ?thesis
    using Output by (auto simp: interpret_ok interpret_well_formed)
next
  case (CalledProcessError out)
  then have "snd (run_speedtest lib co sid t) = snd (interpret_output lib out)"
    by (simp add: snd_run_speedtest)
  then show ?thesis
    using CalledProcessError by (auto simp: interpret_ok interpret_well_formed)
next
  case (Raises e)
  then have "snd (run_speedtest lib co sid t) = Inl e"
    by (simp add: snd_run_speedtest)
  then show ?thesis
    using Raises by simp
qed

theorem run_speedtest_returns_iff_handled_witness:
  "handled sample_lib (fails_with ''Segmentation fault'' (command None) (Some 90))
   \<and> snd (run_speedtest sample_lib (fails_with ''Segmentation fault'') None (Some 90)) = Inr zero_result
   \<and> well_formed zero_result
   \<and> \<not> handled sample_lib (hangs (command None) (Some 90))
   \<and> \<not> ok (snd (run_speedtest sample_lib hangs None (Some 90)))"
  using run_speedtest_returns_iff_handled
    [of sample_lib "fails_with ''Segmentation fault''" None "Some 90"]
    run_speedtest_returns_iff_handled [of sample_lib hangs None "Some 90"]
  by (simp add: sample_defs output_handled_def well_formed_def snd_run_speedtest snd_interpret_output)

text \<open>
  C1 as stated fails: when the process exceeds the timeout, \<^verbatim>\<open>check_output\<close> raises
  \<^verbatim>\<open>TimeoutExpired\<close>, which nothing catches.
\<close>

theorem run_speedtest_timeout_counterexample:
  "snd (run_speedtest sample_lib hangs None (Some 90)) = Inl TimeoutExpired"
  by (simp add: snd_run_speedtest hangs_def)

text \<open>
  C10. For a result event (a dict without \<open>error\<close> key whose \<open>type\<close> is \<open>result\<close>) that
  is incomplete, whatever the exit status of the tool, the call raises instead of returning:
  \<^verbatim>\<open>KeyError\<close>, \<^verbatim>\<open>TypeError\<close> or \<^verbatim>\<open>ValueError\<close>, and \<^verbatim>\<open>OverflowError\<close> in the one case of a
  \<open>server.id\<close> that is an infinite float.
\<close>

theorem run_speedtest_incomplete_result_raises:
  assumes "co (command sid) t = Output out \<or> co (command sid) t = CalledProcessError out"
    and "json_loads lib out = Inr (JObj kvs)"
    and "map_of kvs ''error'' = None"
    and "map_of kvs ''type'' = Some (JStr ''result'')"
    and "incomplete_result lib (JObj kvs)"
  shows "\<exists>e. snd (run_speedtest lib co sid t) = Inl e
           \<and> (e \<in> {KeyError, TypeError, ValueError}
              \<or> e = OverflowError
                \<and> (py_getitem2 (JObj kvs) ''server'' ''id'' = Inr (JFloat PosInf)
                   \<or> py_getitem2 (JObj kvs) ''server'' ''id'' = Inr (JFloat NegInf)))"
proof -
  have eq: "snd (run_speedtest lib co sid t) = snd (extract_result lib (JObj kvs))"
    using assms(1-4) by (auto simp: snd_run_speedtest snd_interpret_output snd_typed_event)
  have "\<not> ok (snd (extract_result lib (JObj kvs)))"
    using assms(5) by (simp add: extract_result_ok result_fields_ok_def)
  then obtain e where e: "snd (extract_result lib (JObj kvs)) = Inl e"
    by (cases "snd (extract_result lib (JObj kvs))") auto
  show ?thesis
  proof (cases "e = OverflowError")
    case True
    then show ?thesis using e eq extract_result_overflow[of lib "JObj kvs"] by simp
  next
    case False
    then show ?thesis using e eq extract_result_errors[of lib "JObj kvs" e] by simp
  qed
qed

theorem run_speedtest_incomplete_result_raises_witness:
  "prints ''partial.json'' (command None) (Some 90) = Output ''partial.json''
   \<and> json_loads sample_lib ''partial.json'' = Inr partial_result
   \<and> incomplete_result sample_lib partial_result
   \<and> snd (run_speedtest sample_lib (prints ''partial.json'') None (Some 90)) = Inl KeyError"
  using run_speedtest_incomplete_result_raises
    [of "prints ''partial.json''" None "Some 90" "''partial.json''" sample_lib
        "[(''type'', JStr ''result''),
           (''server'', JObj [(''id'', JInt 1234)]),
           (''ping'', JObj [(''jitter'', JFloat (Finite (3 / 2))),
                            (''latency'', JFloat (Finite (51 / 5)))]),
           (''download'', JObj [(''bandwidth'', JInt 12500000)])]"]
  by (simp add: sample_defs incomplete_result_def snd_run_speedtest snd_interpret_output
      snd_typed_event extract_result_def attempt_simps)

section \<open>Properties of record\_speedtest\<close>

lemma invocations_simps:
  "invocations [] = 0"
  "invocations (Invoke cmd t # es) = Suc (invocations es)"
  "invocations (Log l args # es) = invocations es"
  "invocations (es @ es') = invocations es + invocations es'"
  by (simp_all add: invocations_def)

lemma fst_emit: "fst (emit es m) = es @ fst m"
  by (simp add: emit_def)

lemma invocations_extract_result: "invocations (fst (extract_result lib data)) = 0"
  by (simp add: extract_result_def attempt_def pure_def invocations_simps split: sum.splits)

lemma invocations_typed_event: "invocations (fst (typed_event lib data)) = 0"
  by (auto simp: typed_event_def log_event_def no_result_def attempt_def pure_def emit_def
      invocations_simps invocations_extract_result split: sum.splits prod.splits)

lemma invocations_interpret_output: "invocations (fst (interpret_output lib out)) = 0"
  by (auto simp: interpret_output_def no_result_def attempt_def pure_def emit_def
      invocations_simps invocations_typed_event split: sum.splits)

lemma invocations_run_speedtest: "invocations (fst (run_speedtest lib co sid t)) = 1"
  by (auto simp: run_speedtest_def Let_def attempt_def pure_def emit_def
      invocations_simps invocations_interpret_output split: sum.splits proc_result.splits)

lemma summary_line_not_invoke: "summary_line r = Inr line \<Longrightarrow> \<not> is_invoke line"
  by (auto simp: summary_line_def split: prod.splits sum.splits)

lemma invocations_refresh:
  "invocations (fst (refresh lib w ct srv rt g)) = 1"
proof -
  obtain es r where run: "run_speedtest lib (check_output w) srv (Some rt) = (es, r)"
    by (cases "run_speedtest lib (check_output w) srv (Some rt)")
  then have "invocations es = 1"
    using invocations_run_speedtest[of lib "check_output w" srv "Some rt"] by simp
  then show ?thesis
    using run summary_line_not_invoke
    by (auto simp: refresh_def invocations_def split: sum.splits prod.splits option.splits)
qed

lemma fst_handle:
  "read_config lib w = Inr (ct, srv, rt) \<Longrightarrow>
   fst (handle lib w expired g) = (if expired then fst (refresh lib w ct srv rt g) else [])"
  by (auto simp: handle_def split: prod.splits sum.splits)

lemma invocations_handle:
  assumes "ok (read_config lib w)"
  shows "invocations (fst (handle lib w expired g)) = (if expired then 1 else 0)"
proof -
  obtain ct srv rt where "read_config lib w = Inr (ct, srv, rt)"
    using assms by (cases "read_config lib w") auto
  then show ?thesis
    by (simp add: fst_handle invocations_refresh invocations_simps)
qed

lemma gauge_set_ok: "ok (gauge_set lib v) \<Longrightarrow> gauge_set lib v = Inr (AsFloat v)"
  by (cases v) (auto split: if_splits)

lemma set_gauges_publishable:
  assumes "publishable lib r"
  shows "set_gauges lib r g = (None, cache_entry (speedtest_cache_timeout g) r)"
  using assms
  by (cases r) (simp add: publishable_def set_gauges_def gauge_set_ok cache_entry_def)

lemma summary_line_publishable:
  "publishable lib r \<Longrightarrow> ok (summary_line r)"
  by (cases r) (auto simp: publishable_def summary_line_def ok_iff)

lemma set_gauges_deadline:
  "set_gauges lib r g = (x, g') \<Longrightarrow> speedtest_cache_timeout g' = speedtest_cache_timeout g"
  by (cases r) (auto simp: set_gauges_def split: sum.splits)

lemma refresh_publishable:
  assumes "snd (run_speedtest lib (check_output w) srv (Some rt)) = Inr r"
    and "publishable lib r"
    and "\<not> int_too_large ct"
  shows "snd (refresh lib w ct srv rt g)
           = (Inr (), cache_entry (float_add lib (time_store w) ct) r)"
proof -
  obtain es where run: "run_speedtest lib (check_output w) srv (Some rt) = (es, Inr r)"
    using assms(1) by (cases "run_speedtest lib (check_output w) srv (Some rt)") auto
  obtain line where line: "summary_line r = Inr line"
    using summary_line_publishable[OF assms(2)] by (auto simp: ok_iff)
  have "cache_entry (speedtest_cache_timeout g) r
          \<lparr>speedtest_cache_timeout := float_add lib (time_store w) ct\<rparr>
        = cache_entry (float_add lib (time_store w) ct) r"
    by (cases r) (simp add: cache_entry_def)
  then show ?thesis
    using assms(3)
    by (simp add: refresh_def run line set_gauges_publishable[OF assms(2)] float_plus_int_def)
qed

lemma make_wsgi_app_cache_entry: "make_wsgi_app (cache_entry d r) = published r"
  by (cases r) (simp add: make_wsgi_app_def cache_entry_def published_def)

lemma refresh_completed:
  assumes "refresh lib w ct srv rt g = (es, Inr u, g')"
  shows "speedtest_cache_timeout g' = float_add lib (time_store w) ct"
  using assms
  by (auto simp: refresh_def float_plus_int_def
      split: prod.splits sum.splits option.splits if_splits)


lemma fst_serve_Cons:
  "fst (serve lib (w # ws) g)
     = fst (record_speedtest lib w g) @ fst (serve lib ws (snd (snd (record_speedtest lib w g))))"
  by (simp split: prod.splits)

lemma fst_serve_overlapped_Cons:
  "fst (serve_overlapped lib (w # ws) g0 g)
     = fst (handle lib w (speedtest_cache_timeout g0 < time_check w) g)
       @ fst (serve_overlapped lib ws g0
               (snd (snd (handle lib w (speedtest_cache_timeout g0 < time_check w) g))))"
  by (simp split: prod.splits)

lemma config_ttl_Some:
  "config_ttl lib w = Some ttl \<longleftrightarrow> (\<exists>srv rt. read_config lib w = Inr (ttl, srv, rt))"
  by (auto simp: config_ttl_def split: sum.splits)


lemma record_speedtest_completed:
  assumes "speedtest_cache_timeout g < time_check w"
    and "config_ttl lib w = Some ttl"
    and "record_speedtest lib w g = (es, Inr m, g')"
  shows "speedtest_cache_timeout g' = float_add lib (time_store w) ttl \<and> m = make_wsgi_app g'"
proof -
  obtain srv rt where cfg: "read_config lib w = Inr (ttl, srv, rt)"
    using assms(2) by (auto simp: config_ttl_Some)
  show ?thesis
    using assms(1,3) refresh_completed[of lib w ttl srv rt g]
    by (auto simp: record_speedtest_def handle_def cfg split: prod.splits sum.splits)
qed

lemma record_speedtest_cached:
  assumes "ok (read_config lib w)" and "time_check w \<le> speedtest_cache_timeout g"
  shows "record_speedtest lib w g = ([], Inr (make_wsgi_app g), g)"
  using assms by (cases "read_config lib w") (auto simp: record_speedtest_def handle_def)

lemma invocations_record_speedtest:
  assumes "ok (read_config lib w)"
  shows "invocations (fst (record_speedtest lib w g))
           = (if speedtest_cache_timeout g < time_check w then 1 else 0)"
  using assms by (simp add: record_speedtest_def invocations_handle)


lemma refresh_raised_deadline:
  "refresh lib w ct srv rt g = (es, Inl e, g') \<Longrightarrow>
   speedtest_cache_timeout g' = speedtest_cache_timeout g"
  by (auto simp: refresh_def float_plus_int_def
      split: prod.splits sum.splits option.splits if_splits
      dest: set_gauges_deadline)

lemma record_speedtest_raised_deadline:
  "record_speedtest lib w g = (es, Inl e, g') \<Longrightarrow>
   speedtest_cache_timeout g' = speedtest_cache_timeout g"
  by (auto simp: record_speedtest_def handle_def split: prod.splits sum.splits if_splits
      dest: refresh_raised_deadline)

lemma record_speedtest_response:
  "record_speedtest lib w g = (es, Inr m, g') \<Longrightarrow> m = make_wsgi_app g'"
  by (auto simp: record_speedtest_def handle_def split: prod.splits sum.splits if_splits)

lemmas eval_defs = record_speedtest_def handle_def refresh_def read_config_def getenv_int_def
  run_defs summary_line_def set_gauges_def make_wsgi_app_def int_too_large_def zero_result_def
  sample_defs initial_def config_ttl_def cache_entry_def published_def publishable_def
  float_plus_int_def deadline_not_lifted_def

text \<open>
  C2, as the code has it. The comparison at line 109 is strict: with a readable
  configuration, a call runs the probe exactly when its clock reading is later than the
  deadline. At the deadline itself, as one second before it, the cached gauges are served.
\<close>

theorem record_speedtest_probes_iff_deadline_passed:
  assumes "ok (read_config lib w)"
  shows "invocations (fst (record_speedtest lib w g))
           = (if speedtest_cache_timeout g < time_check w then 1 else 0)"
  using assms by (simp add: record_speedtest_def invocations_handle)

theorem record_speedtest_probes_iff_deadline_passed_witness:
  "ok (read_config sample_lib (req no_env 899 899 (prints ''result.json'')))
   \<and> invocations (fst (record_speedtest sample_lib
         (req no_env 899 899 (prints ''result.json'')) good_state)) = 0
   \<and> invocations (fst (record_speedtest sample_lib
         (req no_env 900 900 (prints ''result.json'')) good_state)) = 0
   \<and> invocations (fst (record_speedtest sample_lib
         (req no_env 901 901 (prints ''result.json'')) good_state)) = 1"
  using record_speedtest_probes_iff_deadline_passed
      [of sample_lib "req no_env 899 899 (prints ''result.json'')" good_state]
    record_speedtest_probes_iff_deadline_passed
      [of sample_lib "req no_env 900 900 (prints ''result.json'')" good_state]
    record_speedtest_probes_iff_deadline_passed
      [of sample_lib "req no_env 901 901 (prints ''result.json'')" good_state]
  by (simp add: sample_defs read_config_def getenv_int_def cache_entry_def)

text \<open>C2 as stated fails: a call whose clock reading equals the deadline runs no probe.\<close>

theorem record_speedtest_at_deadline_counterexample:
  "time_check (req no_env 900 900 (prints ''result.json'')) = speedtest_cache_timeout good_state
   \<and> invocations (fst (record_speedtest sample_lib
         (req no_env 900 900 (prints ''result.json'')) good_state)) = 0"
  by (simp add: eval_defs invocations_simps)

text \<open>
  C7, as the code has it. On a refresh (the deadline has passed) in which \<^verbatim>\<open>run_speedtest\<close>
  returns a tuple, whether of a success or the all-zero tuple of a failure, the tuple can be
  published and the cache timeout converts to a float, every gauge is overwritten with the
  tuple and the deadline becomes the float sum of the clock reading of line 120, taken
  after the probe and the publishing, and the cache timeout.
\<close>

theorem refresh_overwrites_entry:
  assumes "speedtest_cache_timeout g < time_check w"
    and "read_config lib w = Inr (cache_timeout, srv, rt)"
    and "snd (run_speedtest lib (check_output w) srv (Some rt)) = Inr r"
    and "publishable lib r"
    and "\<not> int_too_large cache_timeout"
  shows "snd (record_speedtest lib w g)
           = (Inr (published r), cache_entry (float_add lib (time_store w) cache_timeout) r)"
  using assms(1,2) refresh_publishable[OF assms(3,4,5), of g]
  by (auto simp: record_speedtest_def handle_def make_wsgi_app_cache_entry
      split: prod.splits sum.splits)

theorem refresh_overwrites_entry_witness:
  "speedtest_cache_timeout good_state
     < time_check (req no_env 1000 1030 (fails_with ''Segmentation fault''))
   \<and> read_config sample_lib (req no_env 1000 1030 (fails_with ''Segmentation fault''))
       = Inr (900, None, 90)
   \<and> snd (run_speedtest sample_lib (fails_with ''Segmentation fault'') None (Some 90))
       = Inr zero_result
   \<and> publishable sample_lib zero_result
   \<and> \<not> int_too_large 900
   \<and> float_add sample_lib 1030 900 = 1930
   \<and> snd (record_speedtest sample_lib
            (req no_env 1000 1030 (fails_with ''Segmentation fault'')) good_state)
       = (Inr (published zero_result), cache_entry 1930 zero_result)"
  using refresh_overwrites_entry
      [of good_state "req no_env 1000 1030 (fails_with ''Segmentation fault'')" sample_lib
          900 None 90 zero_result]
  by (simp add: eval_defs)

text \<open>
  C7 as stated fails twice. The deadline is not the time of the expiry check plus the
  timeout: a probe that takes 30 seconds moves it 30 seconds further. And a probe that
  raises (here by exceeding its timeout) leaves the gauges of the last good probe.
\<close>

theorem refresh_deadline_counterexample:
  "config_ttl sample_lib (req no_env 1000 1030 (prints ''result.json'')) = Some 900
   \<and> speedtest_cache_timeout (snd (snd (record_speedtest sample_lib
        (req no_env 1000 1030 (prints ''result.json'')) (initial 0)))) = 1930
   \<and> time_check (req no_env 1000 1030 (prints ''result.json'')) + 900 = 1900
   \<and> snd (record_speedtest sample_lib (req no_env 1000 1030 hangs) good_state)
       = (Inl TimeoutExpired, good_state)"
  by (simp add: eval_defs)

text \<open>
  With a cache timeout too large for a float, line 120 raises after the gauges have been
  overwritten: the failure is published, the deadline stays where it was, and the next call
  runs the probe again.
\<close>

lemma huge_timeout_raises_after_publishing:
  "snd (record_speedtest sample_lib
          (req (ttl_env two_to_1024) 1000 1030 (fails_with ''Segmentation fault'')) good_state)
     = (Inl OverflowError, cache_entry 900 zero_result)
   \<and> invocations (fst (serve sample_lib
        [req (ttl_env two_to_1024) 1000 1030 (fails_with ''Segmentation fault''),
         req (ttl_env two_to_1024) 1000 1030 (fails_with ''Segmentation fault'')] good_state)) = 2"
  by (simp add: eval_defs invocations_simps)

text \<open>
  C6, as the code has it. When a call finds the deadline passed and its refresh completes
  without an exception, a second call whose clock reading is not later than the deadline
  the first call stored (the float sum of the first call's reading of line 120 and the cache
  timeout), in particular a call with the same reading, runs no probe, changes nothing and
  returns what the first call returned: one probe invocation in all.
\<close>

theorem second_call_within_window_is_cached:
  assumes "speedtest_cache_timeout g < time_check w1"
    and "config_ttl lib w1 = Some ttl"
    and "ok (fst (snd (record_speedtest lib w1 g)))"
    and "ok (read_config lib w2)"
    and "time_check w2 \<le> float_add lib (time_store w1) ttl"
  shows "record_speedtest lib w2 (snd (snd (record_speedtest lib w1 g)))
           = ([], fst (snd (record_speedtest lib w1 g)), snd (snd (record_speedtest lib w1 g)))
         \<and> invocations (fst (serve lib [w1, w2] g)) = 1"
proof -
  obtain es1 m1 g1 where first: "record_speedtest lib w1 g = (es1, Inr m1, g1)"
    using assms(3) by (cases "record_speedtest lib w1 g") (auto simp: ok_iff)
  have g1: "speedtest_cache_timeout g1 = float_add lib (time_store w1) ttl"
    "m1 = make_wsgi_app g1"
    using record_speedtest_completed[OF assms(1,2) first] by simp_all
  have second: "record_speedtest lib w2 g1 = ([], Inr m1, g1)"
    using record_speedtest_cached[OF assms(4), of g1] assms(5) g1 by simp
  have "ok (read_config lib w1)"
    using assms(2) by (auto simp: config_ttl_Some)
  then have "invocations es1 = 1"
    using invocations_record_speedtest[of lib w1 g] assms(1) first by simp
  then show ?thesis
    using second first by (simp add: invocations_simps fst_serve_Cons del: serve.simps(2))
qed

theorem second_call_within_window_is_cached_witness:
  "speedtest_cache_timeout (initial 0) < time_check (req no_env 1000 1030 (prints ''result.json''))
   \<and> config_ttl sample_lib (req no_env 1000 1030 (prints ''result.json'')) = Some 900
   \<and> fst (snd (record_speedtest sample_lib
        (req no_env 1000 1030 (prints ''result.json'')) (initial 0))) = Inr (published scenario_A)
   \<and> time_check (req no_env 1000 1030 (prints ''result.json''))
        \<le> float_add sample_lib (time_store (req no_env 1000 1030 (prints ''result.json''))) 900
   \<and> record_speedtest sample_lib (req no_env 1000 1030 (prints ''result.json''))
        (cache_entry 1930 scenario_A)
       = ([], Inr (published scenario_A), cache_entry 1930 scenario_A)
   \<and> invocations (fst (serve sample_lib
        [req no_env 1000 1030 (prints ''result.json''),
         req no_env 1000 1030 (prints ''result.json'')] (initial 0))) = 1"
  using second_call_within_window_is_cached
      [of "initial 0" "req no_env 1000 1030 (prints ''result.json'')" sample_lib 900
          "req no_env 1000 1030 (prints ''result.json'')"]
  by (simp add: eval_defs)

text \<open>
  C6 as stated fails: when the probe of the first call raises, here by exceeding its
  timeout, no deadline is stored, and the second call with the same clock reading, a
  timeout of 900 seconds being configured, runs the probe again.
\<close>

theorem repeated_call_after_timeout_counterexample:
  "config_ttl sample_lib (req no_env 1000 1000 hangs) = Some 900
   \<and> invocations (fst (serve sample_lib
        [req no_env 1000 1000 hangs, req no_env 1000 1000 hangs] good_state)) = 2"
  by (simp add: eval_defs invocations_simps)




text \<open>
  C9, as the code has it. The handler takes no lock. When the threads of the server make
  their expiry checks before any of them has stored a new deadline, every one of them finds
  the deadline passed and runs the probe: N calls, N invocations.
\<close>

theorem overlapped_calls_probe_each:
  assumes "list_all (\<lambda>w. ok (read_config lib w) \<and> speedtest_cache_timeout g0 < time_check w) ws"
  shows "invocations (fst (serve_overlapped lib ws g0 g)) = length ws"
  using assms
proof (induction ws arbitrary: g)
  case Nil
  then show ?case by (simp add: invocations_simps)
next
  case (Cons w ws)
  obtain es r g' where step: "handle lib w (speedtest_cache_timeout g0 < time_check w) g = (es, r, g')"
    by (cases "handle lib w (speedtest_cache_timeout g0 < time_check w) g")
  have "invocations es = 1"
    using invocations_handle[of lib w "speedtest_cache_timeout g0 < time_check w" g] step Cons.prems
    by simp
  moreover have "invocations (fst (serve_overlapped lib ws g0 g')) = length ws"
    using Cons.IH Cons.prems by simp
  ultimately show ?case
    using step
    by (simp add: invocations_simps fst_serve_overlapped_Cons del: serve_overlapped.simps(2))
qed

theorem overlapped_calls_probe_each_witness:
  "list_all (\<lambda>w. ok (read_config sample_lib w) \<and> speedtest_cache_timeout good_state < time_check w)
      [req no_env 1000 1030 (prints ''result.json''),
       req no_env 1001 1031 (prints ''result.json''),
       req no_env 1002 1032 (prints ''result.json'')]
   \<and> invocations (fst (serve_overlapped sample_lib
      [req no_env 1000 1030 (prints ''result.json''),
       req no_env 1001 1031 (prints ''result.json''),
       req no_env 1002 1032 (prints ''result.json'')] good_state good_state)) = 3"
  using overlapped_calls_probe_each
      [of sample_lib good_state
          "[req no_env 1000 1030 (prints ''result.json''),
            req no_env 1001 1031 (prints ''result.json''),
            req no_env 1002 1032 (prints ''result.json'')]" good_state]
  by (simp add: sample_defs read_config_def getenv_int_def cache_entry_def)

text \<open>
  C9 as stated fails: two calls that both check the deadline of the same expired state run
  two probes.
\<close>

theorem overlapped_calls_counterexample:
  "invocations (fst (serve_overlapped sample_lib
      [req no_env 1000 1030 (prints ''result.json''),
       req no_env 1000 1030 (prints ''result.json'')] good_state good_state)) = 2"
  by (simp add: eval_defs invocations_simps)

end
